theory Spec2Isabelle
  imports Main "HOL-Library.Sublist"
begin

section \<open>The autonomous development loop of autonomous\_agent.py\<close>

text \<open>
  The orchestrator is a Python class whose methods read and write files, start external
  processes and mutate the iteration counter. Every effect is made explicit here:
  \<^item> the file tree is a map from paths to nodes, and paths are lists of components
    relative to the working directory of the process;
  \<^item> an external process is answered by an oracle: the outcome of the k-th call of
    \<open>subprocess.run\<close> is \<open>env k\<close>, either a completed process or a raised exception;
  \<^item> a raised exception is the left injection of a sum, so that every method returns
    either the exception that leaves it or its value, together with the new world;
  \<^item> the world carries a trace of what the process did to its surroundings: processes
    started, prompts sent, pauses, files written, and the banner of every loop pass.
  Console output other than the banner of a loop pass, and the modification times that
  \<open>touch\<close> refreshes, are not part of the model.
\<close>

subsection \<open>Exceptions\<close>

text \<open>
  An exception is its class and the text \<open>str(e)\<close>. \<open>KeyboardInterrupt\<close> derives from
  \<open>BaseException\<close> only, so a handler \<open>except Exception\<close> lets it pass; every other
  class below derives from \<open>Exception\<close>.
\<close>

datatype exn_class =
    KeyboardInterrupt
  | TimeoutExpired
  | FileNotFoundError
  | FileExistsError
  | NotADirectoryError
  | IsADirectoryError
  | OtherException

datatype exn = Exn exn_class string

fun str :: "exn \<Rightarrow> string" where
  "str (Exn c m) = m"

fun exn_class_of :: "exn \<Rightarrow> exn_class" where
  "exn_class_of (Exn c m) = c"

subsection \<open>Files\<close>

type_synonym path = "string list"

datatype node = Dir | File string

datatype event =
    Iteration int int
  | Exec "string list"
  | Sent int string
  | Slept int
  | Wrote path

record world =
  files :: "path \<Rightarrow> node option"
  ncalls :: nat
  trace :: "event list"

definition parent :: "path \<Rightarrow> path" where
  "parent p = butlast p"

definition path_str :: "path \<Rightarrow> string" where
  "path_str p = concat (map (\<lambda>c. CHR ''/'' # c) p)"

text \<open>\<open>Path.exists()\<close>\<close>

definition exists_path :: "path \<Rightarrow> world \<Rightarrow> bool" where
  "exists_path p w = (files w p \<noteq> None)"

text \<open>
  \<open>Path.mkdir(exist_ok=True)\<close>: an existing directory is left alone, an existing file
  raises, and the parent has to be a directory.
\<close>

definition mkdir_exist_ok :: "path \<Rightarrow> world \<Rightarrow> (exn + unit) \<times> world" where
  "mkdir_exist_ok p w =
     (case files w p of
        Some Dir \<Rightarrow> (Inr (), w)
      | Some (File c) \<Rightarrow> (Inl (Exn FileExistsError (''File exists: '' @ path_str p)), w)
      | None \<Rightarrow>
          (case files w (parent p) of
             Some Dir \<Rightarrow> (Inr (), w\<lparr>files := (files w)(p \<mapsto> Dir)\<rparr>)
           | Some (File c) \<Rightarrow> (Inl (Exn NotADirectoryError (''Not a directory: '' @ path_str p)), w)
           | None \<Rightarrow> (Inl (Exn FileNotFoundError (''No such file or directory: '' @ path_str p)), w)))"

text \<open>
  \<open>Path.touch()\<close>: whatever exists at the path keeps its content (only its time stamp
  changes), otherwise an empty file is created in the parent directory.
\<close>

definition touch :: "path \<Rightarrow> world \<Rightarrow> (exn + unit) \<times> world" where
  "touch p w =
     (case files w p of
        Some n \<Rightarrow> (Inr (), w)
      | None \<Rightarrow>
          (case files w (parent p) of
             Some Dir \<Rightarrow> (Inr (), w\<lparr>files := (files w)(p \<mapsto> File [])\<rparr>)
           | Some (File c) \<Rightarrow> (Inl (Exn NotADirectoryError (''Not a directory: '' @ path_str p)), w)
           | None \<Rightarrow> (Inl (Exn FileNotFoundError (''No such file or directory: '' @ path_str p)), w)))"

text \<open>\<open>open(p).read()\<close>\<close>

definition read_file :: "path \<Rightarrow> world \<Rightarrow> exn + string" where
  "read_file p w =
     (case files w p of
        Some (File c) \<Rightarrow> Inr c
      | Some Dir \<Rightarrow> Inl (Exn IsADirectoryError (''Is a directory: '' @ path_str p))
      | None \<Rightarrow> Inl (Exn FileNotFoundError (''No such file or directory: '' @ path_str p)))"

text \<open>\<open>with open(p, "w") as f: f.write(content)\<close>\<close>

definition write_file :: "path \<Rightarrow> string \<Rightarrow> world \<Rightarrow> (exn + unit) \<times> world" where
  "write_file p content w =
     (case files w p of
        Some Dir \<Rightarrow> (Inl (Exn IsADirectoryError (''Is a directory: '' @ path_str p)), w)
      | Some (File c) \<Rightarrow>
          (Inr (), w\<lparr>files := (files w)(p \<mapsto> File content), trace := trace w @ [Wrote p]\<rparr>)
      | None \<Rightarrow>
          (case files w (parent p) of
             Some Dir \<Rightarrow>
               (Inr (), w\<lparr>files := (files w)(p \<mapsto> File content), trace := trace w @ [Wrote p]\<rparr>)
           | Some (File c) \<Rightarrow> (Inl (Exn NotADirectoryError (''Not a directory: '' @ path_str p)), w)
           | None \<Rightarrow> (Inl (Exn FileNotFoundError (''No such file or directory: '' @ path_str p)), w)))"

subsection \<open>External processes\<close>

record completed_process =
  cp_returncode :: int
  cp_stdout :: string
  cp_stderr :: string

type_synonym env = "nat \<Rightarrow> exn + completed_process"

definition subprocess_run ::
  "env \<Rightarrow> string list \<Rightarrow> world \<Rightarrow> (exn + completed_process) \<times> world" where
  "subprocess_run env cmd w =
     (env (ncalls w), w\<lparr>ncalls := Suc (ncalls w), trace := trace w @ [Exec cmd]\<rparr>)"

definition time_sleep :: "int \<Rightarrow> world \<Rightarrow> world" where
  "time_sleep secs w = w\<lparr>trace := trace w @ [Slept secs]\<rparr>"

subsection \<open>Text\<close>

definition nl :: string where
  "nl = [CHR 0x0A]"

text \<open>The check mark of the report, U+2705, as its three bytes in UTF-8.\<close>

definition check_mark :: string where
  "check_mark = [CHR 0xE2, CHR 0x9C, CHR 0x85]"

definition digit_char :: "nat \<Rightarrow> char" where
  "digit_char d = ''0123456789'' ! d"

fun str_nat :: "nat \<Rightarrow> string" where
  "str_nat n = (if n < 10 then [digit_char n] else str_nat (n div 10) @ [digit_char (n mod 10)])"

declare str_nat.simps [simp del]

definition str_int :: "int \<Rightarrow> string" where
  "str_int i = (if i < 0 then CHR ''-'' # str_nat (nat (- i)) else str_nat (nat i))"

text \<open>A triple-quoted literal: each line of the list ends with a newline.\<close>

definition text_lines :: "string list \<Rightarrow> string" where
  "text_lines ls = concat (map (\<lambda>l. l @ nl) ls)"

text \<open>
  \<open>Path(s)\<close> for a relative path: the components between slashes, with empty
  components and \<open>.\<close> dropped as pathlib does.
\<close>

fun components :: "string \<Rightarrow> string \<Rightarrow> string list" where
  "components cur [] = [cur]"
| "components cur (c # cs) =
     (if c = CHR ''/'' then cur # components [] cs else components (cur @ [c]) cs)"

definition Path :: "string \<Rightarrow> path" where
  "Path s = filter (\<lambda>c. c \<noteq> [] \<and> c \<noteq> ''.'') (components [] s)"

subsection \<open>The agent\<close>

record agent =
  project_dir :: path
  max_iterations :: int
  iteration :: int

text \<open>\<open>AutonomousAgent.__init__\<close>\<close>

definition AutonomousAgent :: "string \<Rightarrow> agent" where
  "AutonomousAgent dir = \<lparr>project_dir = Path dir, max_iterations = 50, iteration = 0\<rparr>"

record test_result =
  passed :: bool
  test_output :: string
  returncode :: int

text \<open>\<open>read_requirements\<close>\<close>

definition read_requirements :: "agent \<Rightarrow> world \<Rightarrow> exn + string" where
  "read_requirements a w =
     (let req_file = project_dir a @ [''PROJECT_REQUIREMENTS.md'']
      in if \<not> exists_path req_file w
         then Inl (Exn FileNotFoundError ''PROJECT_REQUIREMENTS.md not found'')
         else read_file req_file w)"

text \<open>\<open>setup_project_structure\<close>\<close>

definition setup_project_structure :: "agent \<Rightarrow> world \<Rightarrow> (exn + unit) \<times> world" where
  "setup_project_structure a w =
     (case mkdir_exist_ok (project_dir a @ [''src'']) w of
        (Inl e, w1) \<Rightarrow> (Inl e, w1)
      | (Inr u1, w1) \<Rightarrow>
     (case mkdir_exist_ok (project_dir a @ [''tests'']) w1 of
        (Inl e, w2) \<Rightarrow> (Inl e, w2)
      | (Inr u2, w2) \<Rightarrow>
     (case touch (project_dir a @ [''src'', ''__init__.py'']) w2 of
        (Inl e, w3) \<Rightarrow> (Inl e, w3)
      | (Inr u3, w3) \<Rightarrow> touch (project_dir a @ [''tests'', ''__init__.py'']) w3)))"

text \<open>
  \<open>run_tests\<close>. The three branches of the \<open>try\<close> statement, in the order of the source:
  the completed process, \<open>except subprocess.TimeoutExpired\<close>, \<open>except Exception\<close>.
  An interrupt is no \<open>Exception\<close> and leaves the method.
\<close>

definition pytest_cmd :: "string list" where
  "pytest_cmd = [''pytest'', ''tests/'', ''-v'', ''--tb=short'', ''--color=yes'']"

fun run_tests_result :: "exn + completed_process \<Rightarrow> exn + test_result" where
  "run_tests_result (Inr result) =
     Inr \<lparr>passed = (cp_returncode result = 0),
          test_output = cp_stdout result @ cp_stderr result,
          returncode = cp_returncode result\<rparr>"
| "run_tests_result (Inl (Exn TimeoutExpired m)) =
     Inr \<lparr>passed = False, test_output = ''Tests timed out after 60 seconds'', returncode = - 1\<rparr>"
| "run_tests_result (Inl (Exn KeyboardInterrupt m)) = Inl (Exn KeyboardInterrupt m)"
| "run_tests_result (Inl (Exn c m)) =
     Inr \<lparr>passed = False, test_output = ''Error running tests: '' @ m, returncode = - 1\<rparr>"

definition run_tests :: "env \<Rightarrow> agent \<Rightarrow> world \<Rightarrow> (exn + test_result) \<times> world" where
  "run_tests env a w =
     (case subprocess_run env pytest_cmd w of (r, w1) \<Rightarrow> (run_tests_result r, w1))"

text \<open>
  \<open>send_to_claude\<close>. The source returns a fixed placeholder where a production bridge
  would return the assistant's answer. The reply is a parameter here, a function of the
  iteration and the prompt, so that runs with different replies can be compared; the
  method of the source is the instance with the placeholder.
\<close>

definition send_to_claude_with ::
  "(int \<Rightarrow> string \<Rightarrow> string) \<Rightarrow> agent \<Rightarrow> string \<Rightarrow> world \<Rightarrow> string \<times> world" where
  "send_to_claude_with reply a prompt w =
     (reply (iteration a) prompt, w\<lparr>trace := trace w @ [Sent (iteration a) prompt]\<rparr>)"

definition placeholder :: "int \<Rightarrow> string \<Rightarrow> string" where
  "placeholder i prompt = ''PLACEHOLDER: Claude would respond here''"

definition send_to_claude :: "agent \<Rightarrow> string \<Rightarrow> world \<Rightarrow> string \<times> world" where
  "send_to_claude = send_to_claude_with placeholder"

definition initial_prompt :: "string \<Rightarrow> string \<Rightarrow> string" where
  "initial_prompt instructions requirements =
     nl @ text_lines
       [''AUTONOMOUS MODE: Implement the following requirements using TDD.'',
        [],
        ''SYSTEM INSTRUCTIONS:'',
        instructions,
        [],
        ''PROJECT REQUIREMENTS:'',
        requirements,
        [],
        ''INSTRUCTIONS:'',
        ''1. Write tests FIRST in tests/ folder (import from src/, NO hardcoding)'',
        ''2. Implement code in src/ folder'',
        ''3. Make tests pass'',
        ''4. Report completion'',
        [],
        ''Begin implementation now.'']"

definition debug_prompt :: "int \<Rightarrow> string \<Rightarrow> string" where
  "debug_prompt i out =
     nl @ text_lines
       [''AUTONOMOUS DEBUGGING - Iteration '' @ str_int i,
        [],
        ''Test results:'',
        out,
        [],
        ''INSTRUCTIONS:'',
        ''1. Analyze the error'',
        ''2. Identify the bug in src/ code'',
        ''3. Fix the code (DO NOT modify tests)'',
        ''4. The tests will run automatically next'',
        [],
        ''Fix the issue now.'']"

text \<open>\<open>generate_final_report\<close>\<close>

definition coverage_cmd :: "string list" where
  "coverage_cmd = [''pytest'', ''tests/'', ''--cov=src'', ''--cov-report=term'']"

definition report_head :: string where
  "report_head =
     nl @ text_lines
       [replicate 80 CHR ''='',
        check_mark @ '' AUTONOMOUS DEVELOPMENT COMPLETE'',
        replicate 80 CHR ''='',
        []]"

definition report_tail :: string where
  "report_tail =
     text_lines
       [[],
        ''To verify:'',
        ''1. Review tests in tests/ folder'',
        ''2. Run: pytest tests/ -v'',
        ''3. Check: All tests pass'',
        [],
        ''Next steps:'',
        ''- Review code in src/ folder'',
        ''- Review tests to verify requirements'',
        ''- Deploy if satisfied'']"

definition report_text :: "int \<Rightarrow> string \<Rightarrow> string \<Rightarrow> string" where
  "report_text i out cov =
     report_head @
     text_lines
       [''Total iterations: '' @ str_int i,
        ''Final status: ALL TESTS PASSING '' @ check_mark,
        [],
        ''Test Results:'',
        out,
        [],
        ''Coverage Report:'',
        cov] @
     report_tail"

definition report_path :: "agent \<Rightarrow> path" where
  "report_path a = project_dir a @ [''COMPLETION_REPORT.md'']"

definition generate_final_report ::
  "env \<Rightarrow> agent \<Rightarrow> test_result \<Rightarrow> world \<Rightarrow> (exn + unit) \<times> world" where
  "generate_final_report env a test_results w =
     (case subprocess_run env coverage_cmd w of
        (Inl e, w1) \<Rightarrow> (Inl e, w1)
      | (Inr coverage_result, w1) \<Rightarrow>
          write_file (report_path a)
            (report_text (iteration a) (test_output test_results) (cp_stdout coverage_result)) w1)"

text \<open>
  The \<open>while\<close> loop of \<open>autonomous_development_loop\<close>. The agent is returned with the
  world because the loop mutates \<open>self.iteration\<close>. The reply of the assistant is bound
  to nothing, as in the source.
\<close>

function development_loop ::
  "(int \<Rightarrow> string \<Rightarrow> string) \<Rightarrow> env \<Rightarrow> agent \<Rightarrow> world \<Rightarrow> (exn + bool) \<times> agent \<times> world" where
  "development_loop reply env a w =
     (if iteration a < max_iterations a then
        (let a1 = a\<lparr>iteration := iteration a + 1\<rparr>;
             w0 = w\<lparr>trace := trace w @ [Iteration (iteration a1) (max_iterations a1)]\<rparr>
         in case run_tests env a1 w0 of
              (Inl e, w1) \<Rightarrow> (Inl e, a1, w1)
            | (Inr test_results, w1) \<Rightarrow>
                if passed test_results then
                  (case generate_final_report env a1 test_results w1 of
                     (Inl e, w2) \<Rightarrow> (Inl e, a1, w2)
                   | (Inr u, w2) \<Rightarrow> (Inr True, a1, w2))
                else
                  (case send_to_claude_with reply a1
                          (debug_prompt (iteration a1) (test_output test_results)) w1 of
                     (r, w2) \<Rightarrow> development_loop reply env a1 (time_sleep 2 w2)))
      else (Inr False, a, w))"
  by pat_completeness auto
termination
  by (relation "measure (\<lambda>(reply, env, a, w). nat (max_iterations a - iteration a))") auto

declare development_loop.simps [simp del]

text \<open>\<open>autonomous_development_loop\<close>: the entry actions, then the loop.\<close>

definition autonomous_development_loop_with ::
  "(int \<Rightarrow> string \<Rightarrow> string) \<Rightarrow> env \<Rightarrow> agent \<Rightarrow> world \<Rightarrow> (exn + bool) \<times> agent \<times> world" where
  "autonomous_development_loop_with reply env a w =
     (case setup_project_structure a w of
        (Inl e, w1) \<Rightarrow> (Inl e, a, w1)
      | (Inr u, w1) \<Rightarrow>
     (case read_requirements a w1 of
        Inl e \<Rightarrow> (Inl e, a, w1)
      | Inr requirements \<Rightarrow>
     (case read_file [''SYSTEM_INSTRUCTIONS.md''] w1 of
        Inl e \<Rightarrow> (Inl e, a, w1)
      | Inr instructions \<Rightarrow>
     (case send_to_claude_with reply a (initial_prompt instructions requirements) w1 of
        (r, w2) \<Rightarrow> development_loop reply env a w2))))"

definition autonomous_development_loop ::
  "env \<Rightarrow> agent \<Rightarrow> world \<Rightarrow> (exn + bool) \<times> agent \<times> world" where
  "autonomous_development_loop = autonomous_development_loop_with placeholder"

text \<open>
  \<open>main\<close>, as the exit code of the process and the world it leaves. \<open>sys.exit\<close> raises
  \<open>SystemExit\<close>, which neither handler catches.
\<close>

definition main :: "string list \<Rightarrow> env \<Rightarrow> world \<Rightarrow> int \<times> world" where
  "main argv env w =
     (let dir = (if length argv > 1 then argv ! 1 else ''.'');
          agent = AutonomousAgent dir
      in case autonomous_development_loop env agent w of
           (Inr success, a', w') \<Rightarrow> ((if success then 0 else 1), w')
         | (Inl e, a', w') \<Rightarrow>
             (if exn_class_of e = KeyboardInterrupt then (1, w') else (1, w')))"

subsection \<open>Sample surroundings\<close>

text \<open>Test commands that time out, cannot be started, always fail and always pass.\<close>

definition timing_out :: env where
  "timing_out k = Inl (Exn TimeoutExpired ''Command timed out after 60 seconds'')"

definition not_found :: env where
  "not_found k = Inl (Exn FileNotFoundError ''[Errno 2] No such file or directory: pytest'')"

definition always_failing :: env where
  "always_failing k = Inr \<lparr>cp_returncode = 1, cp_stdout = ''1 failed'', cp_stderr = []\<rparr>"

definition always_passing :: env where
  "always_passing k = Inr \<lparr>cp_returncode = 0, cp_stdout = ''1 passed'', cp_stderr = []\<rparr>"

text \<open>
  A working directory that holds nothing, and one that holds the two documents the
  agent reads.
\<close>

definition empty_project :: world where
  "empty_project = \<lparr>files = [[] \<mapsto> Dir], ncalls = 0, trace = []\<rparr>"

definition ready_project :: world where
  "ready_project =
     \<lparr>files = [[] \<mapsto> Dir,
               [''PROJECT_REQUIREMENTS.md''] \<mapsto> File ''Build a calculator'',
               [''SYSTEM_INSTRUCTIONS.md''] \<mapsto> File ''Use TDD''],
      ncalls = 0, trace = []\<rparr>"

text \<open>A working directory in which the layout of the scaffolder is already there.\<close>

definition scaffolded_project :: world where
  "scaffolded_project =
     \<lparr>files = [[] \<mapsto> Dir,
               [''src''] \<mapsto> Dir,
               [''tests''] \<mapsto> Dir,
               [''src'', ''__init__.py''] \<mapsto> File ''import os'',
               [''tests'', ''__init__.py''] \<mapsto> File []],
      ncalls = 0, trace = []\<rparr>"

text \<open>
  A working directory with the layout, the requirements and the instructions in place.
\<close>

definition working_project :: world where
  "working_project =
     \<lparr>files = [[] \<mapsto> Dir,
               [''src''] \<mapsto> Dir,
               [''tests''] \<mapsto> Dir,
               [''src'', ''__init__.py''] \<mapsto> File [],
               [''tests'', ''__init__.py''] \<mapsto> File [],
               [''PROJECT_REQUIREMENTS.md''] \<mapsto> File ''Build a calculator'',
               [''SYSTEM_INSTRUCTIONS.md''] \<mapsto> File ''Use TDD''],
      ncalls = 0, trace = []\<rparr>"

subsection \<open>Predicates of the statements\<close>

text \<open>The layout that \<open>setup_project_structure\<close> aims at: two directories, a marker in each.\<close>

definition layout_exists :: "agent \<Rightarrow> world \<Rightarrow> bool" where
  "layout_exists a w =
     (files w (project_dir a @ [''src'']) = Some Dir \<and>
      files w (project_dir a @ [''tests'']) = Some Dir \<and>
      files w (project_dir a @ [''src'', ''__init__.py'']) \<noteq> None \<and>
      files w (project_dir a @ [''tests'', ''__init__.py'']) \<noteq> None)"

text \<open>
  What a trace tells: the counter values announced by the loop passes, the commands
  started, and the files written, each in order.
\<close>

fun passes :: "event list \<Rightarrow> int list" where
  "passes [] = []"
| "passes (Iteration i m # es) = i # passes es"
| "passes (e # es) = passes es"

fun execs :: "event list \<Rightarrow> string list list" where
  "execs [] = []"
| "execs (Exec c # es) = c # execs es"
| "execs (e # es) = execs es"

fun writes :: "event list \<Rightarrow> path list" where
  "writes [] = []"
| "writes (Wrote p # es) = p # writes es"
| "writes (e # es) = writes es"

text \<open>
  An outcome of the test command that is no success: a completed process with an exit
  code other than 0, or an error of the invocation (the timeout among them).
\<close>

fun failing :: "exn + completed_process \<Rightarrow> bool" where
  "failing (Inr result) = (cp_returncode result \<noteq> 0)"
| "failing (Inl (Exn c m)) = (c \<noteq> KeyboardInterrupt)"

text \<open>
  One pass of the loop, in pieces: the agent after \<open>self.iteration += 1\<close>, the world
  after the banner of the pass, and the world after the debug prompt and the pause.
\<close>

definition next_pass :: "agent \<Rightarrow> agent" where
  "next_pass a = a\<lparr>iteration := iteration a + 1\<rparr>"

definition banner :: "agent \<Rightarrow> world \<Rightarrow> world" where
  "banner a w = w\<lparr>trace := trace w @ [Iteration (iteration a + 1) (max_iterations a)]\<rparr>"

definition debug_sent :: "agent \<Rightarrow> test_result \<Rightarrow> world \<Rightarrow> world" where
  "debug_sent a tr w =
     w\<lparr>trace := trace w @
        [Sent (iteration a + 1) (debug_prompt (iteration a + 1) (test_output tr)), Slept 2]\<rparr>"

text \<open>Agents with a cap of one and of three iterations.\<close>

definition one_round :: agent where
  "one_round = (AutonomousAgent ''.'')\<lparr>max_iterations := 1\<rparr>"

definition three_rounds :: agent where
  "three_rounds = (AutonomousAgent ''.'')\<lparr>max_iterations := 3\<rparr>"

section \<open>The test runner\<close>

text \<open>
  C4. When the test process exceeds the timeout, \<open>subprocess.run\<close> raises
  \<open>TimeoutExpired\<close>. Then \<open>run_tests\<close> raises nothing: it returns a result with
  \<open>passed = False\<close>, the text that names the timeout and the exit code \<open>-1\<close>.
\<close>

theorem run_tests_timeout:
  assumes "env (ncalls w) = Inl (Exn TimeoutExpired m)"
  shows "run_tests env a w =
           (Inr \<lparr>passed = False, test_output = ''Tests timed out after 60 seconds'',
                 returncode = - 1\<rparr>,
            w\<lparr>ncalls := Suc (ncalls w), trace := trace w @ [Exec pytest_cmd]\<rparr>)"
  using assms by (simp add: run_tests_def subprocess_run_def)

theorem run_tests_timeout_witness:
  "fst (run_tests timing_out (AutonomousAgent ''.'') empty_project) =
     Inr \<lparr>passed = False, test_output = ''Tests timed out after 60 seconds'', returncode = - 1\<rparr>"
  using run_tests_timeout [of timing_out empty_project
      "''Command timed out after 60 seconds''" "AutonomousAgent ''.''"]
  by (simp add: timing_out_def)

text \<open>
  C5. When starting the test command raises an error other than the timeout (any class
  derived from \<open>Exception\<close>, such as the \<open>FileNotFoundError\<close> of a missing command),
  \<open>run_tests\<close> raises nothing: it returns a result with \<open>passed = False\<close> whose text
  ends with the text of the exception.
\<close>

theorem run_tests_error:
  assumes "env (ncalls w) = Inl (Exn c m)"
    and "c \<noteq> TimeoutExpired" and "c \<noteq> KeyboardInterrupt"
  shows "run_tests env a w =
           (Inr \<lparr>passed = False, test_output = ''Error running tests: '' @ m, returncode = - 1\<rparr>,
            w\<lparr>ncalls := Suc (ncalls w), trace := trace w @ [Exec pytest_cmd]\<rparr>)"
  using assms by (cases c) (simp_all add: run_tests_def subprocess_run_def)

theorem run_tests_error_witness:
  "fst (run_tests not_found (AutonomousAgent ''.'') empty_project) =
     Inr \<lparr>passed = False,
          test_output = ''Error running tests: [Errno 2] No such file or directory: pytest'',
          returncode = - 1\<rparr>"
  using run_tests_error [of not_found empty_project FileNotFoundError
      "''[Errno 2] No such file or directory: pytest''" "AutonomousAgent ''.''"]
  by (simp add: not_found_def)

text \<open>
  C10. The result of a timeout and the result of any other error of the invocation
  carry the same exit code \<open>-1\<close> and the same \<open>passed = False\<close>; they differ in
  their text only.
\<close>

theorem run_tests_sentinel:
  assumes "env1 (ncalls w) = Inl (Exn TimeoutExpired m1)"
    and "env2 (ncalls w) = Inl (Exn c m2)"
    and "c \<noteq> TimeoutExpired" and "c \<noteq> KeyboardInterrupt"
  shows "\<exists>rt re w'. run_tests env1 a w = (Inr rt, w') \<and> run_tests env2 a w = (Inr re, w') \<and>
           returncode rt = - 1 \<and> returncode re = - 1 \<and>
           passed rt = passed re \<and> test_output rt \<noteq> test_output re"
  using assms by (cases c) (simp_all add: run_tests_def subprocess_run_def)

theorem run_tests_sentinel_witness:
  "\<exists>rt re w'. run_tests timing_out (AutonomousAgent ''.'') empty_project = (Inr rt, w') \<and>
     run_tests not_found (AutonomousAgent ''.'') empty_project = (Inr re, w') \<and>
     returncode rt = - 1 \<and> returncode re = - 1 \<and>
     passed rt = passed re \<and> test_output rt \<noteq> test_output re"
  using run_tests_sentinel [of timing_out empty_project
      "''Command timed out after 60 seconds''" not_found FileNotFoundError
      "''[Errno 2] No such file or directory: pytest''" "AutonomousAgent ''.''"]
  by (simp add: timing_out_def not_found_def)

section \<open>The scaffolder\<close>

lemma mkdir_dir: "files w p = Some Dir \<Longrightarrow> mkdir_exist_ok p w = (Inr (), w)"
  by (simp add: mkdir_exist_ok_def)

lemma mkdir_err: "mkdir_exist_ok p w = (Inl e, w') \<Longrightarrow> w' = w"
  by (auto simp: mkdir_exist_ok_def split: option.splits node.splits)

lemma mkdir_ok: "mkdir_exist_ok p w = (Inr u, w') \<Longrightarrow> files w' p = Some Dir"
  by (auto simp: mkdir_exist_ok_def split: option.splits node.splits)

lemma mkdir_keeps:
  "mkdir_exist_ok p w = (r, w') \<Longrightarrow> files w q = Some n \<Longrightarrow> files w' q = Some n"
  by (auto simp: mkdir_exist_ok_def split: option.splits node.splits)

lemma touch_there: "files w p = Some n \<Longrightarrow> touch p w = (Inr (), w)"
  by (simp add: touch_def)

lemma touch_err: "touch p w = (Inl e, w') \<Longrightarrow> w' = w"
  by (auto simp: touch_def split: option.splits node.splits)

lemma touch_ok: "touch p w = (Inr u, w') \<Longrightarrow> files w' p \<noteq> None"
  by (auto simp: touch_def split: option.splits node.splits)

lemma touch_keeps: "touch p w = (r, w') \<Longrightarrow> files w q = Some n \<Longrightarrow> files w' q = Some n"
  by (auto simp: touch_def split: option.splits node.splits)

lemma setup_existing:
  assumes "layout_exists a w"
  shows "setup_project_structure a w = (Inr (), w)"
proof -
  from assms obtain n1 n2 where
    "files w (project_dir a @ [''src'']) = Some Dir"
    "files w (project_dir a @ [''tests'']) = Some Dir"
    "files w (project_dir a @ [''src'', ''__init__.py'']) = Some n1"
    "files w (project_dir a @ [''tests'', ''__init__.py'']) = Some n2"
    by (auto simp: layout_exists_def)
  then show ?thesis
    by (simp add: setup_project_structure_def mkdir_dir touch_there)
qed

text \<open>
  A second call finds every step of the first one done: the steps that succeeded find
  their directory or file, the step that raised raises again in the same world.
\<close>

lemma setup_twice:
  "setup_project_structure a (snd (setup_project_structure a w)) = setup_project_structure a w"
proof -
  let ?src = "project_dir a @ [''src'']" and ?tests = "project_dir a @ [''tests'']"
  let ?si = "project_dir a @ [''src'', ''__init__.py'']"
  let ?ti = "project_dir a @ [''tests'', ''__init__.py'']"
  obtain r1 w1 where m1: "mkdir_exist_ok ?src w = (r1, w1)" by (cases "mkdir_exist_ok ?src w")
  show ?thesis
  proof (cases r1)
    case (Inl e)
    with m1 have "w1 = w" by (simp add: mkdir_err)
    with m1 Inl show ?thesis by (simp add: setup_project_structure_def)
  next
    case r1: (Inr u1)
    with m1 have s1: "files w1 ?src = Some Dir" by (simp add: mkdir_ok)
    obtain r2 w2 where m2: "mkdir_exist_ok ?tests w1 = (r2, w2)"
      by (cases "mkdir_exist_ok ?tests w1")
    show ?thesis
    proof (cases r2)
      case (Inl e)
      with m2 have "w2 = w1" by (simp add: mkdir_err)
      with m1 m2 r1 Inl s1 show ?thesis
        by (simp add: setup_project_structure_def mkdir_dir)
    next
      case r2: (Inr u2)
      from m2 s1 have s2: "files w2 ?src = Some Dir" by (rule mkdir_keeps)
      from m2 r2 have t2: "files w2 ?tests = Some Dir" by (simp add: mkdir_ok)
      obtain r3 w3 where m3: "touch ?si w2 = (r3, w3)" by (cases "touch ?si w2")
      show ?thesis
      proof (cases r3)
        case (Inl e)
        with m3 have "w3 = w2" by (simp add: touch_err)
        with m1 m2 m3 r1 r2 Inl s2 t2 show ?thesis
          by (simp add: setup_project_structure_def mkdir_dir)
      next
        case r3: (Inr u3)
        from m3 s2 have s3: "files w3 ?src = Some Dir" by (rule touch_keeps)
        from m3 t2 have t3: "files w3 ?tests = Some Dir" by (rule touch_keeps)
        from m3 r3 obtain n3 where i3: "files w3 ?si = Some n3" by (auto dest: touch_ok)
        obtain r4 w4 where m4: "touch ?ti w3 = (r4, w4)" by (cases "touch ?ti w3")
        have first: "setup_project_structure a w = (r4, w4)"
          using m1 m2 m3 m4 r1 r2 r3 by (simp add: setup_project_structure_def)
        show ?thesis
        proof (cases r4)
          case (Inl e)
          with m4 have "w4 = w3" by (simp add: touch_err)
          with first m4 Inl s3 t3 i3 show ?thesis
            by (simp add: setup_project_structure_def mkdir_dir touch_there)
        next
          case (Inr u4)
          from m4 s3 have "files w4 ?src = Some Dir" by (rule touch_keeps)
          moreover from m4 t3 have "files w4 ?tests = Some Dir" by (rule touch_keeps)
          moreover from m4 i3 have "files w4 ?si = Some n3" by (rule touch_keeps)
          moreover from m4 Inr have "files w4 ?ti \<noteq> None" by (simp add: touch_ok)
          ultimately have "layout_exists a w4" by (simp add: layout_exists_def)
          then have "setup_project_structure a w4 = (Inr (), w4)" by (rule setup_existing)
          with first Inr show ?thesis by simp
        qed
      qed
    qed
  qed
qed

text \<open>
  C8. \<open>setup_project_structure\<close> is idempotent: from every world, calling it a second
  time returns what the first call returned and leaves the world of the first call, and
  where the layout exists already a call changes nothing. (Time stamps are not part of
  the world.)
\<close>

theorem setup_project_structure_idempotent:
  "setup_project_structure a (snd (setup_project_structure a w)) = setup_project_structure a w \<and>
   (layout_exists a w \<longrightarrow> setup_project_structure a w = (Inr (), w))"
  using setup_twice [of a w] setup_existing [of a w] by blast

theorem setup_project_structure_idempotent_witness:
  "layout_exists (AutonomousAgent ''.'') scaffolded_project \<and>
   setup_project_structure (AutonomousAgent ''.'') scaffolded_project =
     (Inr (), scaffolded_project) \<and>
   setup_project_structure (AutonomousAgent ''.'')
       (snd (setup_project_structure (AutonomousAgent ''.'') empty_project)) =
     setup_project_structure (AutonomousAgent ''.'') empty_project"
proof -
  have l: "layout_exists (AutonomousAgent ''.'') scaffolded_project"
    by (simp add: layout_exists_def AutonomousAgent_def Path_def scaffolded_project_def)
  show ?thesis
    using l setup_project_structure_idempotent [of "AutonomousAgent ''.''" scaffolded_project]
      setup_project_structure_idempotent [of "AutonomousAgent ''.''" empty_project]
    by blast
qed

section \<open>The loop, pass by pass\<close>

lemma loop_done:
  "\<not> iteration a < max_iterations a \<Longrightarrow> development_loop r env a w = (Inr False, a, w)"
  by (subst development_loop.simps) simp

lemma loop_raise:
  "iteration a < max_iterations a \<Longrightarrow> run_tests env (next_pass a) (banner a w) = (Inl e, w1) \<Longrightarrow>
   development_loop r env a w = (Inl e, next_pass a, w1)"
  by (subst development_loop.simps) (simp add: next_pass_def banner_def Let_def)

lemma loop_pass:
  "iteration a < max_iterations a \<Longrightarrow> run_tests env (next_pass a) (banner a w) = (Inr tr, w1) \<Longrightarrow>
   passed tr \<Longrightarrow>
   development_loop r env a w =
     (case generate_final_report env (next_pass a) tr w1 of
        (Inl e, w2) \<Rightarrow> (Inl e, next_pass a, w2)
      | (Inr u, w2) \<Rightarrow> (Inr True, next_pass a, w2))"
  unfolding next_pass_def banner_def
  by (subst development_loop.simps) (simp add: Let_def)

lemma loop_fail:
  "iteration a < max_iterations a \<Longrightarrow> run_tests env (next_pass a) (banner a w) = (Inr tr, w1) \<Longrightarrow>
   \<not> passed tr \<Longrightarrow>
   development_loop r env a w = development_loop r env (next_pass a) (debug_sent a tr w1)"
  by (subst development_loop.simps)
     (simp add: next_pass_def banner_def debug_sent_def Let_def send_to_claude_with_def
        time_sleep_def)

lemma loop_reply_irrelevant:
  "development_loop r1 env a w = development_loop r2 env a w"
proof (induction "nat (max_iterations a - iteration a)" arbitrary: a w)
  case 0
  then have "\<not> iteration a < max_iterations a" by simp
  then show ?case by (simp add: loop_done)
next
  case (Suc n)
  then have lt: "iteration a < max_iterations a" by simp
  obtain res w1 where rt: "run_tests env (next_pass a) (banner a w) = (res, w1)"
    by (cases "run_tests env (next_pass a) (banner a w)")
  show ?case
  proof (cases res)
    case (Inl e)
    with lt rt show ?thesis by (simp add: loop_raise)
  next
    case (Inr tr)
    show ?thesis
    proof (cases "passed tr")
      case True
      with lt rt Inr show ?thesis by (simp add: loop_pass)
    next
      case False
      from Suc.hyps(2) have "n = nat (max_iterations (next_pass a) - iteration (next_pass a))"
        by (simp add: next_pass_def)
      then have "development_loop r1 env (next_pass a) (debug_sent a tr w1) =
                 development_loop r2 env (next_pass a) (debug_sent a tr w1)"
        by (rule Suc.hyps(1))
      with lt rt Inr False show ?thesis by (simp add: loop_fail)
    qed
  qed
qed

text \<open>
  C9. The replies of the assistant steer nothing: two runs that differ in the replies
  only (the first one and every later one) return the same result, the same agent
  (hence the same number of iterations) and the same world (hence the same test
  executions in the same order and the same report).
\<close>

theorem replies_do_not_steer:
  "autonomous_development_loop_with r1 env a w = autonomous_development_loop_with r2 env a w"
  by (simp add: autonomous_development_loop_with_def send_to_claude_with_def
        loop_reply_irrelevant [of r1 env _ _ r2]
      split: prod.splits sum.splits)

section \<open>Traces\<close>

lemma passes_append: "passes (xs @ ys) = passes xs @ passes ys"
  by (induction xs rule: passes.induct) simp_all

lemma execs_append: "execs (xs @ ys) = execs xs @ execs ys"
  by (induction xs rule: execs.induct) simp_all

lemma writes_append: "writes (xs @ ys) = writes xs @ writes ys"
  by (induction xs rule: writes.induct) simp_all

lemma run_tests_world:
  "run_tests env a w =
     (run_tests_result (env (ncalls w)),
      w\<lparr>ncalls := Suc (ncalls w), trace := trace w @ [Exec pytest_cmd]\<rparr>)"
  by (simp add: run_tests_def subprocess_run_def)

lemma write_file_passes: "write_file p c w = (r, w') \<Longrightarrow> passes (trace w') = passes (trace w)"
  by (auto simp: write_file_def passes_append split: option.splits node.splits)

lemma report_passes:
  "generate_final_report env a tr w = (r, w') \<Longrightarrow> passes (trace w') = passes (trace w)"
  by (auto simp: generate_final_report_def subprocess_run_def passes_append
      split: sum.splits dest!: write_file_passes)

lemma mkdir_same: "mkdir_exist_ok p w = (r, w') \<Longrightarrow> trace w' = trace w \<and> ncalls w' = ncalls w"
  by (auto simp: mkdir_exist_ok_def split: option.splits node.splits)

lemma touch_same: "touch p w = (r, w') \<Longrightarrow> trace w' = trace w \<and> ncalls w' = ncalls w"
  by (auto simp: touch_def split: option.splits node.splits)

lemma setup_same:
  assumes "setup_project_structure a w = (r, w')"
  shows "trace w' = trace w \<and> ncalls w' = ncalls w"
proof -
  obtain r1 w1 where m1: "mkdir_exist_ok (project_dir a @ [''src'']) w = (r1, w1)"
    by (cases "mkdir_exist_ok (project_dir a @ [''src'']) w")
  obtain r2 w2 where m2: "mkdir_exist_ok (project_dir a @ [''tests'']) w1 = (r2, w2)"
    by (cases "mkdir_exist_ok (project_dir a @ [''tests'']) w1")
  obtain r3 w3 where m3: "touch (project_dir a @ [''src'', ''__init__.py'']) w2 = (r3, w3)"
    by (cases "touch (project_dir a @ [''src'', ''__init__.py'']) w2")
  obtain r4 w4 where m4: "touch (project_dir a @ [''tests'', ''__init__.py'']) w3 = (r4, w4)"
    by (cases "touch (project_dir a @ [''tests'', ''__init__.py'']) w3")
  from m1 have k1: "trace w1 = trace w \<and> ncalls w1 = ncalls w" by (rule mkdir_same)
  from m2 have k2: "trace w2 = trace w1 \<and> ncalls w2 = ncalls w1" by (rule mkdir_same)
  from m3 have k3: "trace w3 = trace w2 \<and> ncalls w3 = ncalls w2" by (rule touch_same)
  from m4 have k4: "trace w4 = trace w3 \<and> ncalls w4 = ncalls w3" by (rule touch_same)
  have "w' = w1 \<or> w' = w2 \<or> w' = w3 \<or> w' = w4"
    using assms m1 m2 m3 m4
    by (auto simp: setup_project_structure_def split: sum.splits)
  with k1 k2 k3 k4 show ?thesis by auto
qed

section \<open>The iteration counter\<close>

text \<open>
  The invariant of the loop: the counter only grows, stays below the cap, and the passes
  announce consecutive values.
\<close>

lemma loop_counter:
  assumes "iteration a \<le> max_iterations a" and "development_loop r env a w = (res, a', w')"
  shows "iteration a \<le> iteration a' \<and> iteration a' \<le> max_iterations a \<and>
         passes (trace w') = passes (trace w) @ [iteration a + 1 .. iteration a']"
  using assms
proof (induction "nat (max_iterations a - iteration a)" arbitrary: a w)
  case 0
  then have "\<not> iteration a < max_iterations a" by simp
  with "0.prems" show ?case by (simp add: loop_done)
next
  case (Suc n)
  then have lt: "iteration a < max_iterations a" by simp
  let ?w1 = "(banner a w)\<lparr>ncalls := Suc (ncalls w),
                trace := trace (banner a w) @ [Exec pytest_cmd]\<rparr>"
  have rt: "run_tests env (next_pass a) (banner a w) =
              (run_tests_result (env (ncalls w)), ?w1)"
    by (simp add: run_tests_world banner_def)
  have p1: "passes (trace ?w1) = passes (trace w) @ [iteration a + 1]"
    by (simp add: banner_def passes_append)
  show ?case
  proof (cases "run_tests_result (env (ncalls w))")
    case (Inl e)
    with lt rt have "development_loop r env a w = (Inl e, next_pass a, ?w1)"
      by (simp add: loop_raise)
    with Suc.prems(2) have "a' = next_pass a" "w' = ?w1" by simp_all
    with lt p1 show ?thesis by (simp add: next_pass_def)
  next
    case (Inr tr)
    show ?thesis
    proof (cases "passed tr")
      case True
      obtain r2 w2 where g: "generate_final_report env (next_pass a) tr ?w1 = (r2, w2)"
        by (cases "generate_final_report env (next_pass a) tr ?w1")
      from g have p2: "passes (trace w2) = passes (trace ?w1)" by (rule report_passes)
      from lt rt Inr True g Suc.prems(2) have "a' = next_pass a" "w' = w2"
        by (auto simp: loop_pass split: sum.splits)
      with lt p1 p2 show ?thesis by (simp add: next_pass_def)
    next
      case False
      let ?a1 = "next_pass a" and ?w2 = "debug_sent a tr ?w1"
      from lt rt Inr False Suc.prems(2)
      have run: "development_loop r env ?a1 ?w2 = (res, a', w')"
        by (simp add: loop_fail)
      from Suc.hyps(2) have m: "n = nat (max_iterations ?a1 - iteration ?a1)"
        by (simp add: next_pass_def)
      from lt have le: "iteration ?a1 \<le> max_iterations ?a1" by (simp add: next_pass_def)
      from Suc.hyps(1) [OF m le run]
      have ih: "iteration a + 1 \<le> iteration a'" "iteration a' \<le> max_iterations a"
        "passes (trace w') = passes (trace ?w2) @ [iteration a + 1 + 1 .. iteration a']"
        by (simp_all add: next_pass_def)
      have "passes (trace ?w2) = passes (trace w) @ [iteration a + 1]"
        using p1 by (simp add: debug_sent_def passes_append)
      moreover from ih(1) have "[iteration a + 1 .. iteration a'] =
          (iteration a + 1) # [iteration a + 1 + 1 .. iteration a']"
        by (simp add: upto_rec1)
      ultimately show ?thesis using ih by simp
    qed
  qed
qed

text \<open>
  C7. The counter of a fresh agent is zero. In every run with a cap \<open>N\<close> (the
  constructor sets 50) the passes of the loop see the counter values
  \<open>1, 2, ..., k\<close>, one step of one per pass, where \<open>k\<close> is the final value
  of the counter, and \<open>k\<close> is at most \<open>N\<close>.
\<close>

theorem iteration_counter_bounded:
  assumes "0 \<le> N"
    and "autonomous_development_loop_with r env ((AutonomousAgent dir)\<lparr>max_iterations := N\<rparr>) w =
           (res, a', w')"
  shows "iteration (AutonomousAgent dir) = 0 \<and> max_iterations (AutonomousAgent dir) = 50 \<and>
         passes (trace w') = passes (trace w) @ [1 .. iteration a'] \<and>
         0 \<le> iteration a' \<and> iteration a' \<le> N"
proof -
  let ?a = "(AutonomousAgent dir)\<lparr>max_iterations := N\<rparr>"
  have i0: "iteration ?a = 0" "max_iterations ?a = N" by (simp_all add: AutonomousAgent_def)
  obtain r1 w1 where s: "setup_project_structure ?a w = (r1, w1)"
    by (cases "setup_project_structure ?a w")
  then have t1: "trace w1 = trace w" by (simp add: setup_same)
  have "passes (trace w') = passes (trace w) @ [1 .. iteration a'] \<and>
         0 \<le> iteration a' \<and> iteration a' \<le> N"
  proof (cases "\<exists>req ins. r1 = Inr () \<and> read_requirements ?a w1 = Inr req \<and>
      read_file [''SYSTEM_INSTRUCTIONS.md''] w1 = Inr ins")
    case True
    then obtain req ins where ok: "r1 = Inr ()" "read_requirements ?a w1 = Inr req"
      "read_file [''SYSTEM_INSTRUCTIONS.md''] w1 = Inr ins" by blast
    let ?w2 = "w1\<lparr>trace := trace w1 @ [Sent 0 (initial_prompt ins req)]\<rparr>"
    from assms(2) s ok i0 have run: "development_loop r env ?a ?w2 = (res, a', w')"
      by (simp add: autonomous_development_loop_with_def send_to_claude_with_def)
    from assms(1) i0 have "iteration ?a \<le> max_iterations ?a" by simp
    from loop_counter [OF this run] i0 t1 show ?thesis
      by (simp add: passes_append)
  next
    case False
    with assms(2) s have "a' = ?a" "w' = w1"
      by (auto simp: autonomous_development_loop_with_def split: sum.splits)
    with i0 t1 assms(1) show ?thesis by simp
  qed
  then show ?thesis by (simp add: AutonomousAgent_def)
qed

theorem iteration_counter_bounded_witness:
  "(0::int) \<le> 3 \<and>
   passes (trace (snd (snd (autonomous_development_loop_with placeholder always_failing
      ((AutonomousAgent ''.'')\<lparr>max_iterations := 3\<rparr>) ready_project)))) =
     passes (trace ready_project) @
     [1 .. iteration (fst (snd (autonomous_development_loop_with placeholder always_failing
        ((AutonomousAgent ''.'')\<lparr>max_iterations := 3\<rparr>) ready_project)))] \<and>
   iteration (fst (snd (autonomous_development_loop_with placeholder always_failing
      ((AutonomousAgent ''.'')\<lparr>max_iterations := 3\<rparr>) ready_project))) \<le> 3"
proof -
  let ?run = "autonomous_development_loop_with placeholder always_failing
      ((AutonomousAgent ''.'')\<lparr>max_iterations := 3\<rparr>) ready_project"
  have h: "(0::int) \<le> 3" by simp
  have r: "?run = (fst ?run, fst (snd ?run), snd (snd ?run))" by simp
  from iteration_counter_bounded [OF h r] h show ?thesis by simp
qed

section \<open>Failed test runs\<close>

text \<open>
  With a cap of one and a test command that fails, the only pass of the loop raises the
  counter to the cap, runs the tests, and then still sends the debugging prompt of
  iteration 1 and sleeps, before the loop ends with failure: the prompt is sent while the
  counter equals the cap.
\<close>

theorem debug_prompt_at_cap_counterexample:
  "max_iterations one_round = 1 \<and>
   fst (development_loop placeholder always_failing one_round empty_project) = Inr False \<and>
   trace (snd (snd (development_loop placeholder always_failing one_round empty_project))) =
     [Iteration 1 1, Exec pytest_cmd, Sent 1 (debug_prompt 1 ''1 failed''), Slept 2]"
proof -
  let ?tr = "\<lparr>passed = False, test_output = ''1 failed'', returncode = 1\<rparr>"
  let ?w1 = "snd (run_tests always_failing (next_pass one_round) (banner one_round empty_project))"
  have lt: "iteration one_round < max_iterations one_round"
    by (simp add: one_round_def AutonomousAgent_def)
  have rt: "run_tests always_failing (next_pass one_round) (banner one_round empty_project) =
      (Inr ?tr, ?w1)"
    by (simp add: run_tests_world always_failing_def)
  have "development_loop placeholder always_failing one_round empty_project =
      development_loop placeholder always_failing (next_pass one_round)
        (debug_sent one_round ?tr ?w1)"
    using lt rt by (rule loop_fail) simp
  also have "\<dots> = (Inr False, next_pass one_round, debug_sent one_round ?tr ?w1)"
    by (simp add: loop_done next_pass_def one_round_def AutonomousAgent_def)
  finally have run: "development_loop placeholder always_failing one_round empty_project =
      (Inr False, next_pass one_round, debug_sent one_round ?tr ?w1)" .
  have "trace (debug_sent one_round ?tr ?w1) =
      [Iteration 1 1, Exec pytest_cmd, Sent 1 (debug_prompt 1 ''1 failed''), Slept 2]"
    by (simp add: debug_sent_def run_tests_world banner_def one_round_def AutonomousAgent_def
        empty_project_def)
  with run show ?thesis by (simp add: one_round_def)
qed

text \<open>
  C3, as the loop has it. After every failed test run of a pass the debugging prompt, built
  from the counter of that pass and the output of the test result, is sent and the loop
  sleeps two seconds, whatever the counter; the loop then goes on from that state. When
  the pass was the one that raised the counter to the cap, the prompt is sent all the same
  and the loop ends there with failure: no further test run, no report.
\<close>

theorem debug_prompt_after_every_failure:
  assumes "iteration a < max_iterations a"
    and "run_tests env (next_pass a) (banner a w) = (Inr tr, w1)"
    and "\<not> passed tr"
  shows "development_loop r env a w = development_loop r env (next_pass a) (debug_sent a tr w1) \<and>
         (iteration a + 1 = max_iterations a \<longrightarrow>
            development_loop r env a w = (Inr False, next_pass a, debug_sent a tr w1))"
proof -
  have step: "development_loop r env a w =
      development_loop r env (next_pass a) (debug_sent a tr w1)"
    using assms by (rule loop_fail)
  have "development_loop r env (next_pass a) (debug_sent a tr w1) =
      (Inr False, next_pass a, debug_sent a tr w1)" if "iteration a + 1 = max_iterations a"
    using that by (simp add: loop_done next_pass_def)
  with step show ?thesis by simp
qed

theorem debug_prompt_after_every_failure_witness:
  "iteration one_round < max_iterations one_round \<and>
   iteration one_round + 1 = max_iterations one_round \<and>
   development_loop placeholder timing_out one_round empty_project =
     (Inr False, next_pass one_round,
      debug_sent one_round
        \<lparr>passed = False, test_output = ''Tests timed out after 60 seconds'', returncode = - 1\<rparr>
        (snd (run_tests timing_out (next_pass one_round) (banner one_round empty_project))))"
proof -
  have lt: "iteration one_round < max_iterations one_round"
    by (simp add: one_round_def AutonomousAgent_def)
  have cap: "iteration one_round + 1 = max_iterations one_round"
    by (simp add: one_round_def AutonomousAgent_def)
  have rt: "run_tests timing_out (next_pass one_round) (banner one_round empty_project) =
      (Inr \<lparr>passed = False, test_output = ''Tests timed out after 60 seconds'', returncode = - 1\<rparr>,
       snd (run_tests timing_out (next_pass one_round) (banner one_round empty_project)))"
    by (simp add: run_tests_world timing_out_def)
  have np: "\<not> passed \<lparr>passed = False, test_output = ''Tests timed out after 60 seconds'',
      returncode = - 1\<rparr>" by simp
  from debug_prompt_after_every_failure [OF lt rt np, of placeholder] lt cap
  show ?thesis by blast
qed

section \<open>Exhaustion\<close>

lemma failing_result: "failing x \<Longrightarrow> \<exists>tr. run_tests_result x = Inr tr \<and> \<not> passed tr"
proof (cases x)
  case (Inl e)
  assume f: "failing x"
  obtain c m where e: "e = Exn c m" by (cases e)
  with Inl f show ?thesis by (cases c) simp_all
next
  case (Inr cp)
  assume "failing x"
  with Inr show ?thesis by simp
qed

lemma loop_all_fail:
  assumes "\<forall>k. failing (env k)"
  shows "\<exists>w'. development_loop r env a w =
            (Inr False, a\<lparr>iteration := max (iteration a) (max_iterations a)\<rparr>, w') \<and>
          files w' = files w \<and>
          ncalls w' = ncalls w + nat (max_iterations a - iteration a) \<and>
          execs (trace w') =
            execs (trace w) @ replicate (nat (max_iterations a - iteration a)) pytest_cmd \<and>
          writes (trace w') = writes (trace w)"
proof (induction "nat (max_iterations a - iteration a)" arbitrary: a w)
  case 0
  then have ge: "\<not> iteration a < max_iterations a" by simp
  then have "max (iteration a) (max_iterations a) = iteration a" by simp
  with ge 0 show ?case by (simp add: loop_done)
next
  case (Suc n)
  then have lt: "iteration a < max_iterations a" by simp
  let ?w1 = "(banner a w)\<lparr>ncalls := Suc (ncalls w),
                trace := trace (banner a w) @ [Exec pytest_cmd]\<rparr>"
  from assms obtain tr where tr: "run_tests_result (env (ncalls w)) = Inr tr" "\<not> passed tr"
    using failing_result by blast
  then have rt: "run_tests env (next_pass a) (banner a w) = (Inr tr, ?w1)"
    by (simp add: run_tests_world banner_def)
  let ?a1 = "next_pass a" and ?w2 = "debug_sent a tr ?w1"
  from lt rt tr(2) have step: "development_loop r env a w = development_loop r env ?a1 ?w2"
    by (rule loop_fail)
  from Suc.hyps(2) have m: "n = nat (max_iterations ?a1 - iteration ?a1)"
    by (simp add: next_pass_def)
  from Suc.hyps(1) [OF m, of ?w2] obtain w' where ih:
    "development_loop r env ?a1 ?w2 =
       (Inr False, ?a1\<lparr>iteration := max (iteration ?a1) (max_iterations ?a1)\<rparr>, w')"
    "files w' = files ?w2"
    "ncalls w' = ncalls ?w2 + nat (max_iterations ?a1 - iteration ?a1)"
    "execs (trace w') =
       execs (trace ?w2) @ replicate (nat (max_iterations ?a1 - iteration ?a1)) pytest_cmd"
    "writes (trace w') = writes (trace ?w2)"
    by blast
  from lt have ag: "?a1\<lparr>iteration := max (iteration ?a1) (max_iterations ?a1)\<rparr> =
      a\<lparr>iteration := max (iteration a) (max_iterations a)\<rparr>"
    by (simp add: next_pass_def max_def)
  have f: "files ?w2 = files w" by (simp add: debug_sent_def banner_def)
  have c: "ncalls ?w2 = Suc (ncalls w)" by (simp add: debug_sent_def banner_def)
  have e: "execs (trace ?w2) = execs (trace w) @ [pytest_cmd]"
    by (simp add: debug_sent_def banner_def execs_append)
  have wr: "writes (trace ?w2) = writes (trace w)"
    by (simp add: debug_sent_def banner_def writes_append)
  have "development_loop r env a w =
      (Inr False, a\<lparr>iteration := max (iteration a) (max_iterations a)\<rparr>, w')"
    using step ih(1) ag by simp
  moreover have "files w' = files w" using ih(2) f by simp
  moreover have "ncalls w' = ncalls w + nat (max_iterations a - iteration a)"
    using ih(3) c m Suc.hyps(2) by simp
  moreover have "execs (trace w') =
      execs (trace w) @ replicate (nat (max_iterations a - iteration a)) pytest_cmd"
    using ih(4) e m Suc.hyps(2) [symmetric] by (simp add: replicate_append_same)
  moreover have "writes (trace w') = writes (trace w)" using ih(5) wr by simp
  ultimately show ?case by blast
qed

lemma working_layout: "layout_exists three_rounds working_project"
  by (simp add: layout_exists_def three_rounds_def AutonomousAgent_def Path_def
      working_project_def)

text \<open>
  C1. When the entry actions succeed and every run of the test command ends in failure (a
  nonzero exit code, a timeout or an error of the invocation), the loop of an agent with
  cap \<open>N\<close> returns \<open>False\<close> after exactly \<open>N\<close> runs of the test command and no
  other external command; no file is written and the files are those the scaffolder left,
  so there is no report.
\<close>

theorem exhausted_after_cap_test_runs:
  assumes "\<forall>k. failing (env k)"
    and "setup_project_structure a w = (Inr (), w1)"
    and "read_requirements a w1 = Inr req"
    and "read_file [''SYSTEM_INSTRUCTIONS.md''] w1 = Inr ins"
    and "iteration a = 0"
  shows "\<exists>a' w'. autonomous_development_loop_with r env a w = (Inr False, a', w') \<and>
          execs (trace w') = execs (trace w) @ replicate (nat (max_iterations a)) pytest_cmd \<and>
          ncalls w' = ncalls w + nat (max_iterations a) \<and>
          writes (trace w') = writes (trace w) \<and>
          files w' = files w1"
proof -
  let ?w2 = "w1\<lparr>trace := trace w1 @ [Sent 0 (initial_prompt ins req)]\<rparr>"
  from assms(2) have same: "trace w1 = trace w" "ncalls w1 = ncalls w"
    by (simp_all add: setup_same)
  have run: "autonomous_development_loop_with r env a w = development_loop r env a ?w2"
    using assms(2-5)
    by (simp add: autonomous_development_loop_with_def send_to_claude_with_def)
  from loop_all_fail [OF assms(1), of r a ?w2] obtain w' where l:
    "development_loop r env a ?w2 =
       (Inr False, a\<lparr>iteration := max (iteration a) (max_iterations a)\<rparr>, w')"
    "files w' = files ?w2"
    "ncalls w' = ncalls ?w2 + nat (max_iterations a - iteration a)"
    "execs (trace w') =
       execs (trace ?w2) @ replicate (nat (max_iterations a - iteration a)) pytest_cmd"
    "writes (trace w') = writes (trace ?w2)"
    by blast
  from l(2) have "files w' = files w1" by simp
  moreover from l(3) same assms(5) have "ncalls w' = ncalls w + nat (max_iterations a)" by simp
  moreover from l(4) same assms(5)
  have "execs (trace w') = execs (trace w) @ replicate (nat (max_iterations a)) pytest_cmd"
    by (simp add: execs_append)
  moreover from l(5) same have "writes (trace w') = writes (trace w)"
    by (simp add: writes_append)
  ultimately show ?thesis using run l(1) by simp
qed

theorem exhausted_after_cap_test_runs_witness:
  "(\<forall>k. failing (always_failing k)) \<and>
   (\<exists>a' w'. autonomous_development_loop_with placeholder always_failing three_rounds
        working_project = (Inr False, a', w') \<and>
      execs (trace w') = [pytest_cmd, pytest_cmd, pytest_cmd] \<and>
      ncalls w' = 3 \<and>
      writes (trace w') = [] \<and>
      files w' = files working_project)"
proof -
  have h1: "\<forall>k. failing (always_failing k)" by (simp add: always_failing_def)
  have h2: "setup_project_structure three_rounds working_project = (Inr (), working_project)"
    using working_layout by (rule setup_existing)
  have h3: "read_requirements three_rounds working_project = Inr ''Build a calculator''"
    by (simp add: read_requirements_def exists_path_def read_file_def three_rounds_def
        AutonomousAgent_def Path_def working_project_def)
  have h4: "read_file [''SYSTEM_INSTRUCTIONS.md''] working_project = Inr ''Use TDD''"
    by (simp add: read_file_def working_project_def)
  have h5: "iteration three_rounds = 0" by (simp add: three_rounds_def AutonomousAgent_def)
  have n: "nat (max_iterations three_rounds) = 3"
    by (simp add: three_rounds_def)
  have rep: "replicate 3 pytest_cmd = [pytest_cmd, pytest_cmd, pytest_cmd]"
    by (simp add: numeral_3_eq_3)
  have t: "trace working_project = []" "ncalls working_project = 0"
    by (simp_all add: working_project_def)
  from exhausted_after_cap_test_runs [OF h1 h2 h3 h4 h5, of placeholder] h1
  show ?thesis by (simp add: n t rep)
qed

end
